theory Spec2Isabelle
  imports Complex_Main
begin

section \<open>The registration service of express-mongodb-auth\<close>

text \<open>
  The repository is one Express route, \<^verbatim>\<open>POST /register\<close> (src/index.js, lines 30 to 63),
  and one Mongoose schema with a \<^verbatim>\<open>pre("save")\<close> hook (models/users.js, printed in
  src/README.md, lines 85 to 106). The route is embedded as the function
  \<open>post_register\<close>: it takes the collection as a list of documents and returns the
  response, the collection afterwards, the calls it made to the model and what it wrote
  to the console. Mongoose, MongoDB and bcryptjs are dependencies and not part of the
  sources: what they decide (whether the store answers, the salt that is drawn, the
  digest function, the casts of values that are not strings) is an argument of the
  model.
\<close>

subsection \<open>Values of a parsed JSON body\<close>

text \<open>
  \<^verbatim>\<open>express.json()\<close> leaves a parsed JSON object in \<^verbatim>\<open>req.body\<close>. A property of
  it is a JSON value; a property that is absent reads as \<^verbatim>\<open>undefined\<close>. A number is
  given by its value (\<^verbatim>\<open>JSON.parse\<close> never yields NaN), a string by its characters:
  the route only tests strings for emptiness and equality.
\<close>

datatype jsval =
    JUndefined
  | JNull
  | JBool bool
  | JNum rat
  | JStr string
  | JArray "jsval list"
  | JObject "(string \<times> jsval) list"

text \<open>JavaScript's ToBoolean: what \<^verbatim>\<open>if (x)\<close> tests.\<close>

fun truthy :: "jsval \<Rightarrow> bool" where
  "truthy JUndefined = False"
| "truthy JNull = False"
| "truthy (JBool b) = b"
| "truthy (JNum n) = (n \<noteq> 0)"
| "truthy (JStr s) = (s \<noteq> [])"
| "truthy (JArray xs) = True"
| "truthy (JObject kvs) = True"

text \<open>The operator \<^verbatim>\<open>!x\<close>.\<close>

definition js_not :: "jsval \<Rightarrow> bool" where
  "js_not v = (\<not> truthy v)"

type_synonym body = "string \<rightharpoonup> jsval"

text \<open>Reading a property, as the destructuring \<^verbatim>\<open>const { name, email, password } = req.body\<close> does.\<close>

definition field_of :: "body \<Rightarrow> string \<Rightarrow> jsval" where
  "field_of b k = (case b k of None \<Rightarrow> JUndefined | Some v \<Rightarrow> v)"

subsection \<open>Documents, errors and the collaborators\<close>

text \<open>
  A document of the \<^verbatim>\<open>User\<close> model: the three String paths of the schema and the
  identity \<^verbatim>\<open>_id\<close>.
\<close>

record user =
  oid :: nat
  name :: string
  email :: string
  password :: string

datatype error = CastError | DuplicateKey | StoreUnavailable

text \<open>
  bcryptjs. Its function \<^verbatim>\<open>bcrypt.hash(plainText, salt)\<close> is the parameter
  \<open>bcrypt_hash\<close>. The second field is the reading of the salt back from a digest, which
  the specification describes (section 4.1: the salt is embedded in the digest's
  encoding); only \<open>bcrypt_compare\<close> below uses it.
\<close>

record hasher =
  bcrypt_hash :: "string \<Rightarrow> string \<Rightarrow> string"
  embedded_salt :: "string \<Rightarrow> string"

text \<open>
  Mongoose's treatment of a value that is not a string on a String path: in a document
  (\<open>cast_doc\<close>, \<open>None\<close> being a cast error) and in the filter \<^verbatim>\<open>{ email: v }\<close> of a
  query (\<open>cast_query\<close>: the emails the filter selects, \<open>None\<close> being a cast error).
  A string is kept as it is and selects by equality.
\<close>

record mongoose =
  cast_doc :: "jsval \<Rightarrow> string option"
  cast_query :: "jsval \<Rightarrow> (string \<Rightarrow> bool) option"

definition schema_string :: "mongoose \<Rightarrow> jsval \<Rightarrow> string option" where
  "schema_string m v = (case v of JStr s \<Rightarrow> Some s | _ \<Rightarrow> cast_doc m v)"

definition email_filter :: "mongoose \<Rightarrow> jsval \<Rightarrow> (string \<Rightarrow> bool) option" where
  "email_filter m v = (case v of JStr s \<Rightarrow> Some (\<lambda>e. e = s) | _ \<Rightarrow> cast_query m v)"

text \<open>
  What the outside decides during one request: the salt \<^verbatim>\<open>bcrypt.genSalt(rounds)\<close>
  draws, the identity given to a new document, and whether the store fails the read or
  the write for a reason of its own (it is unreachable).
\<close>

record env =
  genSalt :: "nat \<Rightarrow> string"
  objectId :: nat
  findOne_fault :: "error option"
  save_fault :: "error option"

text \<open>
  \<^verbatim>\<open>User.findOne({ email })\<close>: the first document the filter selects, \<open>None\<close> for
  \<^verbatim>\<open>null\<close>; \<open>Inl\<close> is a rejected promise.
\<close>

definition findOne :: "mongoose \<Rightarrow> env \<Rightarrow> user list \<Rightarrow> jsval \<Rightarrow> error + user option" where
  "findOne m ev db v =
     (case email_filter m v of
        None \<Rightarrow> Inl CastError
      | Some sel \<Rightarrow>
          (case findOne_fault ev of
             Some err \<Rightarrow> Inl err
           | None \<Rightarrow> Inr (find (\<lambda>u. sel (email u)) db)))"

text \<open>
  \<^verbatim>\<open>new User({ name, email, password })\<close>: the document, or the cast error that
  \<^verbatim>\<open>save\<close> will report.
\<close>

definition new_User :: "mongoose \<Rightarrow> env \<Rightarrow> jsval \<Rightarrow> jsval \<Rightarrow> jsval \<Rightarrow> error + user" where
  "new_User m ev nm em pw =
     (case (schema_string m nm, schema_string m em, schema_string m pw) of
        (Some n, Some e, Some p) \<Rightarrow>
          Inr \<lparr>oid = objectId ev, name = n, email = e, password = p\<rparr>
      | _ \<Rightarrow> Inl CastError)"

text \<open>
  The hook \<^verbatim>\<open>userSchema.pre("save", ...)\<close> (src/README.md, lines 95 to 101): it draws a
  salt with cost 10 and replaces the password of the document by its digest.
\<close>

definition pre_save :: "hasher \<Rightarrow> env \<Rightarrow> user \<Rightarrow> user" where
  "pre_save h ev this =
     (let salt = genSalt ev 10;
          plainTextPassword = password this;
          encryptedPassword = bcrypt_hash h plainTextPassword salt
      in this\<lparr>password := encryptedPassword\<rparr>)"

text \<open>
  \<^verbatim>\<open>newUser.save()\<close>: validation, then the hook, then the insertion. The schema
  declares \<^verbatim>\<open>email\<close> unique (src/README.md, line 91), so the store refuses a document
  whose email it already holds. \<open>Inl\<close> is a rejected promise; \<open>Inr\<close> carries the
  collection afterwards and the saved document.
\<close>

definition save :: "hasher \<Rightarrow> env \<Rightarrow> user list \<Rightarrow> error + user \<Rightarrow> error + (user list \<times> user)" where
  "save h ev db doc =
     (case doc of
        Inl err \<Rightarrow> Inl err
      | Inr u \<Rightarrow>
          (let hashed = pre_save h ev u in
           case save_fault ev of
             Some err \<Rightarrow> Inl err
           | None \<Rightarrow>
               if email hashed \<in> set (map email db) then Inl DuplicateKey
               else Inr (db @ [hashed], hashed)))"

subsection \<open>The route\<close>

text \<open>
  The JSON bodies the route sends: \<^verbatim>\<open>{ message }\<close> and \<^verbatim>\<open>{ message, savedUser }\<close>.
\<close>

datatype reply = Message string | Registered string user

text \<open>
  The route either sends a response (status and body), or its promise is rejected
  before it has sent anything: an \<^verbatim>\<open>await\<close> outside the \<^verbatim>\<open>try\<close> block threw.
\<close>

datatype outcome = Responded nat reply | Rejected error

datatype store_call = CallFindOne jsval | CallSave

datatype console_line = LogUser user | LogError error

record run =
  response :: outcome
  store :: "user list"
  calls :: "store_call list"
  console :: "console_line list"

text \<open>\<^verbatim>\<open>app.post("/register", async (req, res) => ...)\<close>, src/index.js, lines 30 to 63.\<close>

definition post_register :: "hasher \<Rightarrow> mongoose \<Rightarrow> env \<Rightarrow> user list \<Rightarrow> body \<Rightarrow> run" where
  "post_register h m ev db b =
     (let nm = field_of b ''name'';
          em = field_of b ''email'';
          pw = field_of b ''password''
      in
      if js_not nm \<or> js_not em \<or> js_not pw then
        \<lparr>response = Responded 400 (Message ''All fields are required.''),
         store = db, calls = [], console = []\<rparr>
      else
        (case findOne m ev db em of
           Inl err \<Rightarrow>
             \<lparr>response = Rejected err,
              store = db, calls = [CallFindOne em], console = []\<rparr>
         | Inr (Some existingUser) \<Rightarrow>
             \<lparr>response = Responded 400 (Message ''Email is already registered.''),
              store = db, calls = [CallFindOne em], console = []\<rparr>
         | Inr None \<Rightarrow>
             (case save h ev db (new_User m ev nm em pw) of
                Inr (db', savedUser) \<Rightarrow>
                  \<lparr>response =
                     Responded 201 (Registered ''User registered successfully!'' savedUser),
                   store = db', calls = [CallFindOne em, CallSave],
                   console = [LogUser savedUser]\<rparr>
              | Inl err \<Rightarrow>
                  \<lparr>response = Responded 500 (Message ''Server error''),
                   store = db, calls = [CallFindOne em, CallSave],
                   console = [LogError err]\<rparr>)))"

subsection \<open>The password helpers of the README\<close>

text \<open>\<^verbatim>\<open>hashPassword\<close>, src/README.md, lines 199 to 202.\<close>

definition hashPassword :: "hasher \<Rightarrow> env \<Rightarrow> string \<Rightarrow> string" where
  "hashPassword h ev pw = (let salt = genSalt ev 10 in bcrypt_hash h pw salt)"

text \<open>
  Modelled from the spec: \<^verbatim>\<open>bcrypt.compare\<close> of bcryptjs, which is not among the
  sources. Section 4.1 of the specification: verify returns true iff the plain text,
  when hashed with the salt embedded in the digest, equals the digest.
\<close>

definition bcrypt_compare :: "hasher \<Rightarrow> string \<Rightarrow> string \<Rightarrow> bool" where
  "bcrypt_compare h plainText digest =
     (bcrypt_hash h plainText (embedded_salt h digest) = digest)"

text \<open>\<^verbatim>\<open>verifyPassword\<close>, src/README.md, lines 204 to 206.\<close>

definition verifyPassword :: "hasher \<Rightarrow> string \<Rightarrow> string \<Rightarrow> bool" where
  "verifyPassword h inputPassword storedHash = bcrypt_compare h inputPassword storedHash"

subsection \<open>Sample inputs\<close>

text \<open>
  Concrete collaborators and the request of the README's test (Jane Doe), on which the
  theorems below are instantiated. The sample hasher writes the salt, a dollar sign and
  the reversed password.
\<close>

definition sample_hasher :: hasher where
  "sample_hasher =
     \<lparr>bcrypt_hash = (\<lambda>plain salt. salt @ ''$'' @ rev plain),
      embedded_salt = takeWhile (\<lambda>c. c \<noteq> CHR ''$'')\<rparr>"

definition sample_mongoose :: mongoose where
  "sample_mongoose = \<lparr>cast_doc = (\<lambda>v. None), cast_query = (\<lambda>v. None)\<rparr>"

definition sample_env :: env where
  "sample_env =
     \<lparr>genSalt = (\<lambda>rounds. ''s4lt''), objectId = 1,
      findOne_fault = None, save_fault = None\<rparr>"

definition jane_body :: body where
  "jane_body =
     [''name'' \<mapsto> JStr ''Jane Doe'',
      ''email'' \<mapsto> JStr ''jane@example.com'',
      ''password'' \<mapsto> JStr ''password123'']"

definition jane_saved :: user where
  "jane_saved =
     \<lparr>oid = 1, name = ''Jane Doe'', email = ''jane@example.com'',
      password = ''s4lt$321drowssap''\<rparr>"

section \<open>Properties\<close>

subsection \<open>The presence check\<close>

lemma falsy_field_rejected:
  assumes "k \<in> {''name'', ''email'', ''password''}" and "js_not (field_of b k)"
  shows "post_register h m ev db b =
           \<lparr>response = Responded 400 (Message ''All fields are required.''),
            store = db, calls = [], console = []\<rparr>"
  using assms by (auto simp: post_register_def)

text \<open>
  C3: when one of name, email and password is absent from the body or is the empty
  string, the route answers 400 with the message "All fields are required." (the
  specification's ValidationError), the collection is unchanged and the store is not
  called.
\<close>

theorem missing_field_400:
  assumes "k \<in> {''name'', ''email'', ''password''}"
    and "b k = None \<or> b k = Some (JStr [])"
  shows "post_register h m ev db b =
           \<lparr>response = Responded 400 (Message ''All fields are required.''),
            store = db, calls = [], console = []\<rparr>"
proof -
  from assms(2) have "js_not (field_of b k)"
    by (auto simp: js_not_def field_of_def)
  with assms(1) show ?thesis
    by (rule falsy_field_rejected)
qed

theorem missing_field_400_witness:
  "post_register sample_hasher sample_mongoose sample_env [jane_saved]
       (jane_body(''password'' := None)) =
     \<lparr>response = Responded 400 (Message ''All fields are required.''),
      store = [jane_saved], calls = [], console = []\<rparr>
   \<and> post_register sample_hasher sample_mongoose sample_env []
       (jane_body(''name'' \<mapsto> JStr [])) =
     \<lparr>response = Responded 400 (Message ''All fields are required.''),
      store = [], calls = [], console = []\<rparr>"
proof -
  have absent: "(jane_body(''password'' := None)) ''password'' = None
      \<or> (jane_body(''password'' := None)) ''password'' = Some (JStr [])"
    by simp
  have blank: "(jane_body(''name'' \<mapsto> JStr [])) ''name'' = None
      \<or> (jane_body(''name'' \<mapsto> JStr [])) ''name'' = Some (JStr [])"
    by simp
  show ?thesis
    using missing_field_400 [of "''password''" "jane_body(''password'' := None)", OF _ absent]
      missing_field_400 [of "''name''" "jane_body(''name'' \<mapsto> JStr [])", OF _ blank]
    by simp
qed

text \<open>
  C10: the presence check treats every falsy value as missing. When name, email or
  password is absent, null, the empty string, 0 or false, the route answers 400 with
  "All fields are required." and does not call the store.
\<close>

theorem falsy_field_400:
  assumes "k \<in> {''name'', ''email'', ''password''}"
    and "b k = None \<or> b k \<in> Some ` {JNull, JStr [], JNum 0, JBool False}"
  shows "post_register h m ev db b =
           \<lparr>response = Responded 400 (Message ''All fields are required.''),
            store = db, calls = [], console = []\<rparr>"
proof -
  from assms(2) have "js_not (field_of b k)"
    by (auto simp: js_not_def field_of_def)
  with assms(1) show ?thesis
    by (rule falsy_field_rejected)
qed

theorem falsy_field_400_witness:
  "post_register sample_hasher sample_mongoose sample_env [jane_saved]
       (jane_body(''email'' \<mapsto> JNum 0)) =
     \<lparr>response = Responded 400 (Message ''All fields are required.''),
      store = [jane_saved], calls = [], console = []\<rparr>
   \<and> post_register sample_hasher sample_mongoose sample_env []
       (jane_body(''password'' \<mapsto> JBool False)) =
     \<lparr>response = Responded 400 (Message ''All fields are required.''),
      store = [], calls = [], console = []\<rparr>
   \<and> post_register sample_hasher sample_mongoose sample_env []
       (jane_body(''name'' \<mapsto> JNull)) =
     \<lparr>response = Responded 400 (Message ''All fields are required.''),
      store = [], calls = [], console = []\<rparr>"
proof -
  have zero: "(jane_body(''email'' \<mapsto> JNum 0)) ''email'' = None
      \<or> (jane_body(''email'' \<mapsto> JNum 0)) ''email''
          \<in> Some ` {JNull, JStr [], JNum 0, JBool False}"
    by simp
  have no: "(jane_body(''password'' \<mapsto> JBool False)) ''password'' = None
      \<or> (jane_body(''password'' \<mapsto> JBool False)) ''password''
          \<in> Some ` {JNull, JStr [], JNum 0, JBool False}"
    by simp
  have null: "(jane_body(''name'' \<mapsto> JNull)) ''name'' = None
      \<or> (jane_body(''name'' \<mapsto> JNull)) ''name''
          \<in> Some ` {JNull, JStr [], JNum 0, JBool False}"
    by simp
  show ?thesis
    using falsy_field_400 [of "''email''" "jane_body(''email'' \<mapsto> JNum 0)", OF _ zero]
      falsy_field_400 [of "''password''" "jane_body(''password'' \<mapsto> JBool False)", OF _ no]
      falsy_field_400 [of "''name''" "jane_body(''name'' \<mapsto> JNull)", OF _ null]
    by simp
qed

subsection \<open>The collaborators and the route on well-formed requests\<close>

lemma findOne_string:
  "findOne m ev db (JStr e) =
     (case findOne_fault ev of
        Some err \<Rightarrow> Inl err
      | None \<Rightarrow> Inr (find (\<lambda>u. email u = e) db))"
  by (simp add: findOne_def email_filter_def)

lemma email_pre_save: "email (pre_save h ev u) = email u"
  by (simp add: pre_save_def Let_def)

lemma password_pre_save:
  "password (pre_save h ev u) = bcrypt_hash h (password u) (genSalt ev 10)"
  by (simp add: pre_save_def Let_def)

lemma save_cases:
  "save h ev db doc = Inr (db', saved) \<longleftrightarrow>
     (\<exists>u. doc = Inr u \<and> save_fault ev = None \<and> email u \<notin> set (map email db)
        \<and> saved = pre_save h ev u \<and> db' = db @ [saved])"
  by (auto simp: save_def Let_def email_pre_save split: sum.splits option.splits)

lemma post_register_valid:
  assumes "truthy (field_of b ''name'')" "truthy (field_of b ''email'')"
    "truthy (field_of b ''password'')"
  shows "post_register h m ev db b =
     (case findOne m ev db (field_of b ''email'') of
           Inl err \<Rightarrow>
             \<lparr>response = Rejected err,
              store = db, calls = [CallFindOne (field_of b ''email'')], console = []\<rparr>
         | Inr (Some existingUser) \<Rightarrow>
             \<lparr>response = Responded 400 (Message ''Email is already registered.''),
              store = db, calls = [CallFindOne (field_of b ''email'')], console = []\<rparr>
         | Inr None \<Rightarrow>
             (case save h ev db (new_User m ev (field_of b ''name'') (field_of b ''email'') (field_of b ''password'')) of
                Inr (db', savedUser) \<Rightarrow>
                  \<lparr>response =
                     Responded 201 (Registered ''User registered successfully!'' savedUser),
                   store = db', calls = [CallFindOne (field_of b ''email''), CallSave],
                   console = [LogUser savedUser]\<rparr>
              | Inl err \<Rightarrow>
                  \<lparr>response = Responded 500 (Message ''Server error''),
                   store = db, calls = [CallFindOne (field_of b ''email''), CallSave],
                   console = [LogError err]\<rparr>))"
  using assms by (simp add: post_register_def js_not_def Let_def)

lemma registered_201:
  assumes "response (post_register h m ev db b) = Responded 201 rep"
  shows "\<exists>u. truthy (field_of b ''name'') \<and> truthy (field_of b ''email'')
       \<and> truthy (field_of b ''password'')
       \<and> findOne m ev db (field_of b ''email'') = Inr None
       \<and> new_User m ev (field_of b ''name'') (field_of b ''email'') (field_of b ''password'') = Inr u
       \<and> save_fault ev = None
       \<and> email u \<notin> set (map email db)
       \<and> rep = Registered ''User registered successfully!'' (pre_save h ev u)
       \<and> store (post_register h m ev db b) = db @ [pre_save h ev u]
       \<and> console (post_register h m ev db b) = [LogUser (pre_save h ev u)]"
proof -
  from assms have t: "truthy (field_of b ''name'')" "truthy (field_of b ''email'')"
    "truthy (field_of b ''password'')"
    by (auto simp: post_register_def js_not_def Let_def split: if_splits)
  from assms show ?thesis
    unfolding post_register_valid [OF t]
    by (auto simp: t save_cases split: sum.splits option.splits prod.splits)
qed

lemma store_after:
  "store (post_register h m ev db b) = db
   \<or> (\<exists>u. store (post_register h m ev db b) = db @ [u] \<and> email u \<notin> set (map email db))"
  by (auto simp: post_register_def Let_def save_def email_pre_save
      split: sum.splits option.splits)

lemma save_failure_500:
  assumes "truthy (field_of b ''name'')" and "truthy (field_of b ''email'')"
    and "truthy (field_of b ''password'')"
    and "findOne m ev db (field_of b ''email'') = Inr None"
    and "save h ev db (new_User m ev (field_of b ''name'') (field_of b ''email'')
           (field_of b ''password'')) = Inl err"
  shows "post_register h m ev db b =
           \<lparr>response = Responded 500 (Message ''Server error''), store = db,
            calls = [CallFindOne (field_of b ''email''), CallSave],
            console = [LogError err]\<rparr>"
  unfolding post_register_valid [OF assms(1-3)] by (simp add: assms(4,5))

subsection \<open>A successful registration\<close>

text \<open>
  C1: a request whose name, email and password are non-empty strings and whose email no
  document of the collection carries is answered with 201, and the document written has
  the given name and email and, as its password, the digest \<open>bcrypt_hash\<close> of the
  password under the salt drawn for this request. The store is taken to answer both
  calls. That the digest differs from the plain text is a property of bcryptjs, which is
  a parameter here: it is the last hypothesis.
\<close>

theorem register_success:
  assumes "b ''name'' = Some (JStr n)" and "b ''email'' = Some (JStr e)"
    and "b ''password'' = Some (JStr p)"
    and "n \<noteq> []" and "e \<noteq> []" and "p \<noteq> []"
    and "e \<notin> set (map email db)"
    and "findOne_fault ev = None" and "save_fault ev = None"
    and "bcrypt_hash h p (genSalt ev 10) \<noteq> p"
  shows "response (post_register h m ev db b) =
           Responded 201 (Registered ''User registered successfully!''
             \<lparr>oid = objectId ev, name = n, email = e,
              password = bcrypt_hash h p (genSalt ev 10)\<rparr>)
       \<and> store (post_register h m ev db b) =
           db @ [\<lparr>oid = objectId ev, name = n, email = e,
                  password = bcrypt_hash h p (genSalt ev 10)\<rparr>]
       \<and> password (last (store (post_register h m ev db b))) \<noteq> p"
proof -
  have f: "field_of b ''name'' = JStr n" "field_of b ''email'' = JStr e"
    "field_of b ''password'' = JStr p"
    using assms(1-3) by (simp_all add: field_of_def)
  have t: "truthy (field_of b ''name'')" "truthy (field_of b ''email'')"
    "truthy (field_of b ''password'')"
    using assms(4-6) by (simp_all add: f)
  have none: "find (\<lambda>u. email u = e) db = None"
    using assms(7) by (auto simp: find_None_iff)
  have read: "findOne m ev db (JStr e) = Inr None"
    by (simp add: findOne_string assms(8) none)
  have doc: "new_User m ev (JStr n) (JStr e) (JStr p) =
      Inr \<lparr>oid = objectId ev, name = n, email = e, password = p\<rparr>"
    by (simp add: new_User_def schema_string_def)
  have written: "save h ev db (Inr \<lparr>oid = objectId ev, name = n, email = e, password = p\<rparr>) =
      Inr (db @ [\<lparr>oid = objectId ev, name = n, email = e,
                  password = bcrypt_hash h p (genSalt ev 10)\<rparr>],
           \<lparr>oid = objectId ev, name = n, email = e,
            password = bcrypt_hash h p (genSalt ev 10)\<rparr>)"
    using assms(7) by (simp add: save_def pre_save_def Let_def assms(9))
  show ?thesis
    unfolding post_register_valid [OF t] f
    by (simp add: read doc written assms(10))
qed

theorem register_success_witness:
  "post_register sample_hasher sample_mongoose sample_env [] jane_body =
     \<lparr>response = Responded 201 (Registered ''User registered successfully!'' jane_saved),
      store = [jane_saved], calls = [CallFindOne (JStr ''jane@example.com''), CallSave],
      console = [LogUser jane_saved]\<rparr>
   \<and> password jane_saved \<noteq> ''password123''"
proof -
  have salted: "bcrypt_hash sample_hasher ''password123'' (genSalt sample_env 10)
      \<noteq> ''password123''"
    by (simp add: sample_hasher_def sample_env_def)
  have "response (post_register sample_hasher sample_mongoose sample_env [] jane_body) =
           Responded 201 (Registered ''User registered successfully!''
             \<lparr>oid = objectId sample_env, name = ''Jane Doe'', email = ''jane@example.com'',
              password = bcrypt_hash sample_hasher ''password123'' (genSalt sample_env 10)\<rparr>)"
    using register_success [of jane_body "''Jane Doe''" "''jane@example.com''"
        "''password123''" "[]" sample_env sample_hasher sample_mongoose, OF _ _ _ _ _ _ _ _ _ salted]
    by (simp add: jane_body_def sample_env_def)
  then show ?thesis
    by (simp add: post_register_def field_of_def js_not_def findOne_def email_filter_def
        new_User_def schema_string_def save_def pre_save_def Let_def
        jane_body_def jane_saved_def sample_env_def sample_hasher_def)
qed

text \<open>
  C9: the body of every 201 response carries the stored document, the one appended to
  the collection, and the password of that document is the digest of the password that
  was sent (as Mongoose cast it to a string): the digest is returned to the caller.
\<close>

theorem response_has_digest:
  assumes "response (post_register h m ev db b) = Responded 201 rep"
  shows "\<exists>u plain. rep = Registered ''User registered successfully!'' u
       \<and> store (post_register h m ev db b) = db @ [u]
       \<and> schema_string m (field_of b ''password'') = Some plain
       \<and> password u = bcrypt_hash h plain (genSalt ev 10)"
proof -
  from registered_201 [OF assms] obtain u where
    doc: "new_User m ev (field_of b ''name'') (field_of b ''email'')
        (field_of b ''password'') = Inr u"
    and rep: "rep = Registered ''User registered successfully!'' (pre_save h ev u)"
    and db': "store (post_register h m ev db b) = db @ [pre_save h ev u]"
    by blast
  from doc have "schema_string m (field_of b ''password'') = Some (password u)"
    by (auto simp: new_User_def split: option.splits)
  with rep db' show ?thesis
    by (auto simp: password_pre_save)
qed

theorem response_has_digest_witness:
  "response (post_register sample_hasher sample_mongoose sample_env [] jane_body) =
     Responded 201 (Registered ''User registered successfully!'' jane_saved)
   \<and> (\<exists>u plain. Registered ''User registered successfully!'' jane_saved =
          Registered ''User registered successfully!'' u
       \<and> store (post_register sample_hasher sample_mongoose sample_env [] jane_body) = [] @ [u]
       \<and> schema_string sample_mongoose (field_of jane_body ''password'') = Some plain
       \<and> password u = bcrypt_hash sample_hasher plain (genSalt sample_env 10))
   \<and> password jane_saved = ''s4lt$321drowssap''"
proof -
  have first: "response (post_register sample_hasher sample_mongoose sample_env [] jane_body) =
     Responded 201 (Registered ''User registered successfully!'' jane_saved)"
    by (simp add: post_register_def field_of_def js_not_def findOne_def email_filter_def
        new_User_def schema_string_def save_def pre_save_def Let_def
        jane_body_def jane_saved_def sample_env_def sample_hasher_def)
  show ?thesis
    using first response_has_digest [OF first] by (simp add: jane_saved_def)
qed

subsection \<open>Duplicate emails\<close>

text \<open>
  C2, as stated, for every pair of calls with the same email and arbitrary names and
  passwords: it fails in two ways. After Jane's registration, a second request with her
  email and an empty password is answered "All fields are required.", since the
  presence check comes first. And when the first of two requests with her email has an
  empty name, it is refused and writes nothing, so that the second one is answered 201.
\<close>

theorem second_call_counterexample:
  "response (post_register sample_hasher sample_mongoose sample_env [] jane_body) =
     Responded 201 (Registered ''User registered successfully!'' jane_saved)
   \<and> store (post_register sample_hasher sample_mongoose sample_env [] jane_body) = [jane_saved]
   \<and> (jane_body(''password'' \<mapsto> JStr [])) ''email'' = jane_body ''email''
   \<and> response (post_register sample_hasher sample_mongoose sample_env [jane_saved]
        (jane_body(''password'' \<mapsto> JStr []))) =
     Responded 400 (Message ''All fields are required.'')
   \<and> response (post_register sample_hasher sample_mongoose sample_env [jane_saved]
        (jane_body(''password'' \<mapsto> JStr []))) \<noteq>
     Responded 400 (Message ''Email is already registered.'')
   \<and> post_register sample_hasher sample_mongoose sample_env []
        (jane_body(''name'' \<mapsto> JStr [])) =
     \<lparr>response = Responded 400 (Message ''All fields are required.''),
      store = [], calls = [], console = []\<rparr>
   \<and> response (post_register sample_hasher sample_mongoose sample_env [] jane_body) \<noteq>
     Responded 400 (Message ''Email is already registered.'')"
  by (simp add: post_register_def field_of_def js_not_def findOne_def email_filter_def
      new_User_def schema_string_def save_def pre_save_def Let_def
      jane_body_def jane_saved_def sample_env_def sample_hasher_def)

text \<open>
  C2, amended: when a registration with a string email succeeded (201), a following
  request with the same email whose name and password pass the presence check, and
  whose read the store answers, gets 400 with the message "Email is already
  registered."; the collection is unchanged and holds exactly one document with that
  email.
\<close>

theorem duplicate_email_400:
  assumes "response (post_register h m ev1 db b1) = Responded 201 rep"
    and "b1 ''email'' = Some (JStr e)"
    and "b2 ''email'' = Some (JStr e)"
    and "truthy (field_of b2 ''name'')" and "truthy (field_of b2 ''password'')"
    and "findOne_fault ev2 = None"
  shows "response (post_register h m ev2 (store (post_register h m ev1 db b1)) b2) =
           Responded 400 (Message ''Email is already registered.'')
       \<and> store (post_register h m ev2 (store (post_register h m ev1 db b1)) b2) =
           store (post_register h m ev1 db b1)
       \<and> length (filter (\<lambda>u. email u = e) (store (post_register h m ev1 db b1))) = 1"
proof -
  have e1: "field_of b1 ''email'' = JStr e" and e2: "field_of b2 ''email'' = JStr e"
    using assms(2,3) by (simp_all add: field_of_def)
  from registered_201 [OF assms(1)] obtain u where
    t1: "truthy (field_of b1 ''email'')"
    and read: "findOne m ev1 db (field_of b1 ''email'') = Inr None"
    and doc: "new_User m ev1 (field_of b1 ''name'') (field_of b1 ''email'')
        (field_of b1 ''password'') = Inr u"
    and db1: "store (post_register h m ev1 db b1) = db @ [pre_save h ev1 u]"
    by blast
  from doc have eu: "email u = e"
    by (auto simp: new_User_def e1 schema_string_def split: option.splits)
  from read have fresh: "find (\<lambda>u. email u = e) db = None"
    by (auto simp: e1 findOne_string split: option.splits)
  then have nowhere: "filter (\<lambda>u. email u = e) db = []"
    by (auto simp: find_None_iff filter_empty_conv)
  have one: "length (filter (\<lambda>u. email u = e) (db @ [pre_save h ev1 u])) = 1"
    by (simp add: nowhere email_pre_save eu)
  have found: "find (\<lambda>u. email u = e) (db @ [pre_save h ev1 u]) = Some (pre_save h ev1 u)"
    using fresh by (induction db) (auto simp: email_pre_save eu)
  have t2: "truthy (field_of b2 ''name'')" "truthy (field_of b2 ''email'')"
    "truthy (field_of b2 ''password'')"
    using assms(4,5) t1 by (simp_all add: e1 e2)
  have second: "post_register h m ev2 (db @ [pre_save h ev1 u]) b2 =
      \<lparr>response = Responded 400 (Message ''Email is already registered.''),
       store = db @ [pre_save h ev1 u], calls = [CallFindOne (JStr e)], console = []\<rparr>"
    unfolding post_register_valid [OF t2] e2
    by (simp add: findOne_string assms(6) found)
  show ?thesis
    unfolding db1 second using one by simp
qed

theorem duplicate_email_400_witness:
  "response (post_register sample_hasher sample_mongoose sample_env [] jane_body) =
     Responded 201 (Registered ''User registered successfully!'' jane_saved)
   \<and> post_register sample_hasher sample_mongoose sample_env [jane_saved]
        (jane_body(''name'' \<mapsto> JStr ''John'')) =
     \<lparr>response = Responded 400 (Message ''Email is already registered.''),
      store = [jane_saved], calls = [CallFindOne (JStr ''jane@example.com'')], console = []\<rparr>
   \<and> length (filter (\<lambda>u. email u = ''jane@example.com'') [jane_saved]) = 1"
proof -
  have first: "response (post_register sample_hasher sample_mongoose sample_env [] jane_body) =
     Responded 201 (Registered ''User registered successfully!'' jane_saved)"
    and db1: "store (post_register sample_hasher sample_mongoose sample_env [] jane_body) =
     [jane_saved]"
    by (simp_all add: post_register_def field_of_def js_not_def findOne_def email_filter_def
        new_User_def schema_string_def save_def pre_save_def Let_def
        jane_body_def jane_saved_def sample_env_def sample_hasher_def)
  have "response (post_register sample_hasher sample_mongoose sample_env
          (store (post_register sample_hasher sample_mongoose sample_env [] jane_body))
          (jane_body(''name'' \<mapsto> JStr ''John''))) =
        Responded 400 (Message ''Email is already registered.'')
      \<and> length (filter (\<lambda>u. email u = ''jane@example.com'')
          (store (post_register sample_hasher sample_mongoose sample_env [] jane_body))) = 1"
    using duplicate_email_400 [OF first, of "''jane@example.com''"
        "jane_body(''name'' \<mapsto> JStr ''John'')" sample_env]
    by (simp add: jane_body_def field_of_def sample_env_def)
  moreover have "post_register sample_hasher sample_mongoose sample_env [jane_saved]
        (jane_body(''name'' \<mapsto> JStr ''John'')) =
     \<lparr>response = Responded 400 (Message ''Email is already registered.''),
      store = [jane_saved], calls = [CallFindOne (JStr ''jane@example.com'')], console = []\<rparr>"
    by (simp add: post_register_def field_of_def js_not_def findOne_def email_filter_def
        Let_def jane_body_def jane_saved_def sample_env_def)
  ultimately show ?thesis
    using first by (simp add: db1)
qed

text \<open>
  C4: email uniqueness is an invariant. If the emails of the collection are pairwise
  distinct (as strings) before a request, they are after it, whatever the request and
  whatever the outside decides.
\<close>

theorem emails_stay_distinct:
  assumes "distinct (map email db)"
  shows "distinct (map email (store (post_register h m ev db b)))"
  using store_after [of h m ev db b] assms by auto

theorem emails_stay_distinct_witness:
  "distinct (map email [jane_saved])
   \<and> distinct (map email (store (post_register sample_hasher sample_mongoose sample_env
        [jane_saved] jane_body)))
   \<and> distinct (map email (store (post_register sample_hasher sample_mongoose sample_env
        [jane_saved] (jane_body(''email'' \<mapsto> JStr ''john@example.com'')))))
   \<and> store (post_register sample_hasher sample_mongoose sample_env
        [jane_saved] (jane_body(''email'' \<mapsto> JStr ''john@example.com''))) =
      [jane_saved, jane_saved\<lparr>email := ''john@example.com''\<rparr>]"
proof -
  have d: "distinct (map email [jane_saved])"
    by simp
  have "store (post_register sample_hasher sample_mongoose sample_env
        [jane_saved] (jane_body(''email'' \<mapsto> JStr ''john@example.com''))) =
      [jane_saved, jane_saved\<lparr>email := ''john@example.com''\<rparr>]"
    by (simp add: post_register_def field_of_def js_not_def findOne_def email_filter_def
        new_User_def schema_string_def save_def pre_save_def Let_def
        jane_body_def jane_saved_def sample_env_def sample_hasher_def)
  then show ?thesis
    using d emails_stay_distinct [OF d, of sample_hasher sample_mongoose sample_env jane_body]
      emails_stay_distinct [OF d, of sample_hasher sample_mongoose sample_env
        "jane_body(''email'' \<mapsto> JStr ''john@example.com'')"]
    by simp
qed

subsection \<open>Failures of the store\<close>

text \<open>
  C7 claims a 500 response with the body \<^verbatim>\<open>{ message: "Server error" }\<close> and a log
  line whenever the read or the write fails. The write is inside the \<^verbatim>\<open>try\<close> block
  and behaves so (lemma \<open>save_failure_500\<close>). The read, \<^verbatim>\<open>await User.findOne\<close> on
  line 39, is outside it: when the store fails the read, the promise of the route is
  rejected, no response is sent by the route and nothing is logged.
\<close>

theorem findOne_failure_rejects:
  assumes "truthy (field_of b ''name'')" and "b ''email'' = Some (JStr e)" and "e \<noteq> []"
    and "truthy (field_of b ''password'')"
    and "findOne_fault ev = Some err"
  shows "post_register h m ev db b =
           \<lparr>response = Rejected err, store = db,
            calls = [CallFindOne (JStr e)], console = []\<rparr>"
proof -
  have e: "field_of b ''email'' = JStr e"
    using assms(2) by (simp add: field_of_def)
  have t: "truthy (field_of b ''name'')" "truthy (field_of b ''email'')"
    "truthy (field_of b ''password'')"
    using assms(1,3,4) by (simp_all add: e)
  show ?thesis
    unfolding post_register_valid [OF t] e
    by (simp add: findOne_string assms(5))
qed

theorem findOne_failure_rejects_witness:
  "post_register sample_hasher sample_mongoose
       (sample_env\<lparr>findOne_fault := Some StoreUnavailable\<rparr>) [] jane_body =
     \<lparr>response = Rejected StoreUnavailable, store = [],
      calls = [CallFindOne (JStr ''jane@example.com'')], console = []\<rparr>"
  using findOne_failure_rejects [of jane_body "''jane@example.com''"
      "sample_env\<lparr>findOne_fault := Some StoreUnavailable\<rparr>" StoreUnavailable
      sample_hasher sample_mongoose "[]"]
  by (simp add: jane_body_def field_of_def)

subsection \<open>Calls to the store\<close>

text \<open>
  C8, as stated, for every invocation: exactly one read. It fails for a request that
  does not pass the presence check, which returns before any call to the store.
\<close>

theorem no_read_counterexample:
  "calls (post_register sample_hasher sample_mongoose sample_env []
       (jane_body(''name'' := None))) = []
   \<and> CallFindOne (JStr ''jane@example.com'')
       \<notin> set (calls (post_register sample_hasher sample_mongoose sample_env []
           (jane_body(''name'' := None))))"
  by (simp add: post_register_def field_of_def js_not_def Let_def jane_body_def)

text \<open>
  C8, amended: a request that fails the presence check makes no call to the store.
  Every other request makes exactly one read, \<^verbatim>\<open>findOne\<close>, first; it makes exactly
  one write, \<^verbatim>\<open>save\<close>, after it when the read succeeded and found no document, and
  no write otherwise. There is no other call and no retry, whatever the outcome.
\<close>

theorem store_calls:
  "calls (post_register h m ev db b) =
     (if \<not> (truthy (field_of b ''name'') \<and> truthy (field_of b ''email'')
            \<and> truthy (field_of b ''password''))
      then []
      else if findOne m ev db (field_of b ''email'') = Inr None
      then [CallFindOne (field_of b ''email''), CallSave]
      else [CallFindOne (field_of b ''email'')])"
  by (auto simp: post_register_def js_not_def Let_def split: sum.splits option.splits)

theorem store_calls_witness:
  "calls (post_register sample_hasher sample_mongoose sample_env [] jane_body) =
     [CallFindOne (JStr ''jane@example.com''), CallSave]
   \<and> calls (post_register sample_hasher sample_mongoose sample_env [jane_saved] jane_body) =
     [CallFindOne (JStr ''jane@example.com'')]
   \<and> calls (post_register sample_hasher sample_mongoose
        (sample_env\<lparr>save_fault := Some StoreUnavailable\<rparr>) [] jane_body) =
     [CallFindOne (JStr ''jane@example.com''), CallSave]
   \<and> calls (post_register sample_hasher sample_mongoose sample_env [jane_saved]
        (jane_body(''email'' := None))) = []"
  using store_calls [of sample_hasher sample_mongoose sample_env "[]" jane_body]
    store_calls [of sample_hasher sample_mongoose sample_env "[jane_saved]" jane_body]
    store_calls [of sample_hasher sample_mongoose
      "sample_env\<lparr>save_fault := Some StoreUnavailable\<rparr>" "[]" jane_body]
    store_calls [of sample_hasher sample_mongoose sample_env "[jane_saved]"
      "jane_body(''email'' := None)"]
  by (simp add: field_of_def findOne_def email_filter_def jane_body_def jane_saved_def
      sample_env_def)

subsection \<open>Hashing and verifying\<close>

text \<open>
  C5: for every password, the empty one and those with bytes outside ASCII included,
  verifying the password against the digest just made of it succeeds. The hypothesis is
  the specification's description of the digest: the salt can be read back from it.
\<close>

theorem hash_then_verify:
  assumes "embedded_salt h (hashPassword h ev p) = genSalt ev 10"
  shows "verifyPassword h p (hashPassword h ev p)"
  using assms by (simp add: verifyPassword_def bcrypt_compare_def hashPassword_def Let_def)

theorem hash_then_verify_witness:
  "verifyPassword sample_hasher [] (hashPassword sample_hasher sample_env [])
   \<and> hashPassword sample_hasher sample_env [] = ''s4lt$''
   \<and> verifyPassword sample_hasher [CHR 0xC3, CHR 0xA9]
        (hashPassword sample_hasher sample_env [CHR 0xC3, CHR 0xA9])"
proof -
  have a: "embedded_salt sample_hasher (hashPassword sample_hasher sample_env []) =
      genSalt sample_env 10"
    by (simp add: sample_hasher_def sample_env_def hashPassword_def)
  have b: "embedded_salt sample_hasher (hashPassword sample_hasher sample_env [CHR 0xC3, CHR 0xA9]) =
      genSalt sample_env 10"
    by (simp add: sample_hasher_def sample_env_def hashPassword_def)
  show ?thesis
    using hash_then_verify [OF a] hash_then_verify [OF b]
    by (simp add: sample_hasher_def sample_env_def hashPassword_def)
qed

text \<open>
  C6: hashing the same password twice, each time with a fresh salt (the two salts
  drawn differ), gives two different digests, and the password verifies against both.
  This holds for the hook \<open>pre_save\<close>, which hashes the password of a document, and
  for \<open>hashPassword\<close>. The salts are what the outside supplies to each invocation.
  The hypotheses on the hasher are about \<open>bcrypt_hash\<close> alone: at each of the two
  salts, the digest it makes of the password carries that salt (section 4.1 of the
  specification). That the two invocations pass the salt they drew on to
  \<open>bcrypt_hash\<close> is what is proved of the code.
\<close>

theorem fresh_salts_differ:
  assumes "genSalt ev1 10 \<noteq> genSalt ev2 10"
    and "embedded_salt h (bcrypt_hash h p (genSalt ev1 10)) = genSalt ev1 10"
    and "embedded_salt h (bcrypt_hash h p (genSalt ev2 10)) = genSalt ev2 10"
  shows "password (pre_save h ev1 (u\<lparr>password := p\<rparr>))
           \<noteq> password (pre_save h ev2 (u\<lparr>password := p\<rparr>))
       \<and> verifyPassword h p (password (pre_save h ev1 (u\<lparr>password := p\<rparr>)))
       \<and> verifyPassword h p (password (pre_save h ev2 (u\<lparr>password := p\<rparr>)))
       \<and> hashPassword h ev1 p \<noteq> hashPassword h ev2 p
       \<and> verifyPassword h p (hashPassword h ev1 p)
       \<and> verifyPassword h p (hashPassword h ev2 p)"
proof -
  have differ: "bcrypt_hash h p (genSalt ev1 10) \<noteq> bcrypt_hash h p (genSalt ev2 10)"
  proof
    assume "bcrypt_hash h p (genSalt ev1 10) = bcrypt_hash h p (genSalt ev2 10)"
    then have "embedded_salt h (bcrypt_hash h p (genSalt ev1 10)) =
        embedded_salt h (bcrypt_hash h p (genSalt ev2 10))"
      by simp
    with assms show False
      by simp
  qed
  have v1: "bcrypt_compare h p (bcrypt_hash h p (genSalt ev1 10))"
    using assms(2) by (simp add: bcrypt_compare_def)
  have v2: "bcrypt_compare h p (bcrypt_hash h p (genSalt ev2 10))"
    using assms(3) by (simp add: bcrypt_compare_def)
  have hook: "password (pre_save h ev (u\<lparr>password := p\<rparr>)) = bcrypt_hash h p (genSalt ev 10)"
    for ev
    by (simp add: password_pre_save)
  have helper: "hashPassword h ev p = bcrypt_hash h p (genSalt ev 10)" for ev
    by (simp add: hashPassword_def Let_def)
  show ?thesis
    unfolding hook helper verifyPassword_def
    using differ v1 v2 by simp
qed

theorem fresh_salts_differ_witness:
  "password (pre_save sample_hasher sample_env (jane_saved\<lparr>password := ''password123''\<rparr>)) =
       ''s4lt$321drowssap''
   \<and> password (pre_save sample_hasher (sample_env\<lparr>genSalt := (\<lambda>rounds. ''p3pper'')\<rparr>)
        (jane_saved\<lparr>password := ''password123''\<rparr>)) = ''p3pper$321drowssap''
   \<and> password (pre_save sample_hasher sample_env (jane_saved\<lparr>password := ''password123''\<rparr>))
       \<noteq> password (pre_save sample_hasher (sample_env\<lparr>genSalt := (\<lambda>rounds. ''p3pper'')\<rparr>)
            (jane_saved\<lparr>password := ''password123''\<rparr>))
   \<and> verifyPassword sample_hasher ''password123''
        (password (pre_save sample_hasher sample_env
           (jane_saved\<lparr>password := ''password123''\<rparr>)))
   \<and> verifyPassword sample_hasher ''password123''
        (password (pre_save sample_hasher (sample_env\<lparr>genSalt := (\<lambda>rounds. ''p3pper'')\<rparr>)
           (jane_saved\<lparr>password := ''password123''\<rparr>)))
   \<and> hashPassword sample_hasher sample_env ''password123'' \<noteq>
       hashPassword sample_hasher (sample_env\<lparr>genSalt := (\<lambda>rounds. ''p3pper'')\<rparr>) ''password123''
   \<and> verifyPassword sample_hasher ''password123''
        (hashPassword sample_hasher sample_env ''password123'')
   \<and> verifyPassword sample_hasher ''password123''
        (hashPassword sample_hasher (sample_env\<lparr>genSalt := (\<lambda>rounds. ''p3pper'')\<rparr>)
           ''password123'')"
proof -
  have fresh: "genSalt sample_env 10 \<noteq> genSalt (sample_env\<lparr>genSalt := (\<lambda>rounds. ''p3pper'')\<rparr>) 10"
    by (simp add: sample_env_def)
  have a: "embedded_salt sample_hasher
        (bcrypt_hash sample_hasher ''password123'' (genSalt sample_env 10)) =
      genSalt sample_env 10"
    by (simp add: sample_hasher_def sample_env_def)
  have b: "embedded_salt sample_hasher
        (bcrypt_hash sample_hasher ''password123''
           (genSalt (sample_env\<lparr>genSalt := (\<lambda>rounds. ''p3pper'')\<rparr>) 10)) =
      genSalt (sample_env\<lparr>genSalt := (\<lambda>rounds. ''p3pper'')\<rparr>) 10"
    by (simp add: sample_hasher_def sample_env_def)
  show ?thesis
    using fresh_salts_differ [OF fresh a b, of jane_saved]
    by (simp add: sample_hasher_def sample_env_def pre_save_def Let_def)
qed

end
